theory Spec2Isabelle
  imports Main
begin

section \<open>Python strings and integers as Clockity.py uses them\<close>

text \<open>
  Clockity.py keeps its times as strings (\<^verbatim>\<open>'00:12:34'\<close>) and goes back and forth with
  \<^verbatim>\<open>str\<close>, \<^verbatim>\<open>zfill\<close>, slicing and \<^verbatim>\<open>int\<close>. Python's integers are unbounded, so they are
  \<^typ>\<open>int\<close> here.
\<close>

definition digit_char :: "nat \<Rightarrow> char" where
  "digit_char n = char_of (of_char CHR ''0'' + n)"

definition digit_value :: "char \<Rightarrow> nat option" where
  "digit_value c =
     (let code = of_char c :: nat in
      if of_char CHR ''0'' \<le> code \<and> code \<le> of_char CHR ''9''
      then Some (code - of_char CHR ''0'') else None)"

text \<open>The decimal digits of a natural number, most significant first.\<close>

fun str_nat :: "nat \<Rightarrow> string" where
  "str_nat n = (if n < 10 then [digit_char n] else str_nat (n div 10) @ [digit_char (n mod 10)])"

declare str_nat.simps [simp del]

text \<open>\<^verbatim>\<open>str(i)\<close> for an integer.\<close>

definition py_str :: "int \<Rightarrow> string" where
  "py_str i = (if i < 0 then CHR ''-'' # str_nat (nat (- i)) else str_nat (nat i))"

text \<open>
  \<^verbatim>\<open>s.zfill(width)\<close>: a string at least \<open>width\<close> long is returned as it is; a shorter one is
  padded with zeros on the left, after a leading sign if it has one.
\<close>

definition zfill :: "nat \<Rightarrow> string \<Rightarrow> string" where
  "zfill width s =
     (if width \<le> length s then s
      else (case s of
              c # cs \<Rightarrow>
                if c = CHR ''+'' \<or> c = CHR ''-''
                then c # replicate (width - length s) CHR ''0'' @ cs
                else replicate (width - length s) CHR ''0'' @ s
            | [] \<Rightarrow> replicate width CHR ''0''))"

text \<open>\<^verbatim>\<open>s[a:b]\<close> for \<open>0 \<le> a \<le> b\<close>; a slice never raises, it is cut at the end of \<open>s\<close>.\<close>

definition slice :: "nat \<Rightarrow> nat \<Rightarrow> string \<Rightarrow> string" where
  "slice a b s = take (b - a) (drop a s)"

fun digits_value :: "nat \<Rightarrow> string \<Rightarrow> nat option" where
  "digits_value acc [] = Some acc"
| "digits_value acc (c # cs) =
     (case digit_value c of None \<Rightarrow> None | Some d \<Rightarrow> digits_value (10 * acc + d) cs)"

text \<open>
  \<^verbatim>\<open>int(s)\<close>: an optional sign and at least one decimal digit; \<open>None\<close> is Python's
  ValueError. (Python also accepts blanks around the number and underscores between
  digits; the program builds its strings from digits, \<^verbatim>\<open>:\<close>, \<^verbatim>\<open>.\<close> and \<^verbatim>\<open>-\<close> only.)
\<close>

definition py_int :: "string \<Rightarrow> int option" where
  "py_int s =
     (case s of
        [] \<Rightarrow> None
      | c # cs \<Rightarrow>
          if c = CHR ''-'' then (if cs = [] then None
                                 else map_option (\<lambda>n. - int n) (digits_value 0 cs))
          else if c = CHR ''+'' then (if cs = [] then None
                                      else map_option int (digits_value 0 cs))
          else map_option int (digits_value 0 s))"

text \<open>
  The expression both loops and \<^verbatim>\<open>set_countdown\<close> use for the display:
  \<^verbatim>\<open>str(hours).zfill(2) + ':' + str(minutes).zfill(2) + ':' + str(seconds).zfill(2)\<close>.
\<close>

definition hms :: "int \<Rightarrow> int \<Rightarrow> int \<Rightarrow> string" where
  "hms hours minutes seconds =
     zfill 2 (py_str hours) @ '':'' @ zfill 2 (py_str minutes) @ '':'' @ zfill 2 (py_str seconds)"

section \<open>The window: sounds\<close>

text \<open>
  \<^verbatim>\<open>Clockity_Window.sounds\<close> beeps for the arguments 1, 2 and 3 and does nothing for any
  other. The beeps are kept as a log, oldest first. Both frames extend this record.
\<close>

record window =
  sound_log :: "int list"

definition sounds :: "int \<Rightarrow> 'a window_scheme \<Rightarrow> 'a window_scheme" where
  "sounds sound w =
     (if sound = 1 \<or> sound = 2 \<or> sound = 3 then w\<lparr>sound_log := sound_log w @ [sound]\<rparr> else w)"

text \<open>
  What a call that contains \<^verbatim>\<open>self.update()\<close> can come to: it returned; it is waiting
  inside \<^verbatim>\<open>update()\<close> (the schedule of button presses given to the model has run out,
  the state is the one on display at that moment); or \<^verbatim>\<open>int()\<close> raised ValueError,
  with the state as the assignments before the raise left it.
\<close>

datatype 'a outcome = Returned 'a | Waiting 'a | Raised 'a

fun state_of :: "'a outcome \<Rightarrow> 'a" where
  "state_of (Returned s) = s"
| "state_of (Waiting s) = s"
| "state_of (Raised s) = s"

section \<open>The countdown frame\<close>

datatype command = Cmd_set_countdown | Cmd_start_countdown | Cmd_pause_countdown | Cmd_nothing

text \<open>
  The attributes of \<^verbatim>\<open>CountDown\<close>, and of its widgets the texts of the two labels, the
  text and command of the Set button, and whether the labels are flashed red.
\<close>

record countdown = window +
  number_key :: bool
  countdown_key :: bool
  time_update :: string
  updated_time :: string
  updated_deci :: int
  alarm_key :: int
  countdown_time_label :: string
  countdown_mini_time_label :: string
  set_countdown_button :: "string \<times> command"
  flash_red :: bool

definition countdown_init :: countdown where
  "countdown_init =
     \<lparr>sound_log = [], number_key = True, countdown_key = False, time_update = '''',
      updated_time = '''', updated_deci = 0, alarm_key = 0,
      countdown_time_label = ''00:00:00'', countdown_mini_time_label = ''.0'',
      set_countdown_button = (''Set'', Cmd_set_countdown), flash_red = False\<rparr>"

text \<open>
  \<^verbatim>\<open>format_number_inputs\<close>: one branch for each length from 1 to 6; for any other length
  \<^verbatim>\<open>updated_time\<close> stays. The label is set in every case.
\<close>

definition format_number_inputs :: "countdown \<Rightarrow> countdown" where
  "format_number_inputs s =
     (let t = time_update s;
          s1 =
            (if length t = 1 then s\<lparr>updated_time := ''00:00:0'' @ t\<rparr>
             else if length t = 2 then s\<lparr>updated_time := ''00:00:'' @ t\<rparr>
             else if length t = 3 then
               s\<lparr>updated_time := ''00:0'' @ [t ! 0] @ '':'' @ slice 1 3 t\<rparr>
             else if length t = 4 then
               s\<lparr>updated_time := ''00:'' @ slice 0 2 t @ '':'' @ slice 2 4 t\<rparr>
             else if length t = 5 then
               s\<lparr>updated_time := ''0'' @ [t ! 0] @ '':'' @ slice 1 3 t @ '':'' @ slice 3 5 t\<rparr>
             else if length t = 6 then
               s\<lparr>updated_time := slice 0 2 t @ '':'' @ slice 2 4 t @ '':'' @ slice 4 6 t\<rparr>
             else s)
      in s1\<lparr>countdown_time_label := updated_time s1\<rparr>)"

text \<open>\<^verbatim>\<open>number_buttons(num)\<close>.\<close>

definition number_buttons :: "int \<Rightarrow> countdown \<Rightarrow> countdown" where
  "number_buttons num s =
     (if number_key s then
        (if num = 0 then
           (if length (time_update s) = 0 then s
            else if length (time_update s) < 6 then
              format_number_inputs ((sounds 2 s)\<lparr>time_update := time_update s @ py_str num\<rparr>)
            else s)
         else
           (if length (time_update s) < 6 then
              format_number_inputs ((sounds 2 s)\<lparr>time_update := time_update s @ py_str num\<rparr>)
            else s))
      else s)"

text \<open>\<^verbatim>\<open>clear_countdown\<close>. It does not assign \<^verbatim>\<open>updated_time\<close>.\<close>

definition clear_countdown :: "countdown \<Rightarrow> countdown" where
  "clear_countdown s =
     (sounds 2 s)\<lparr>countdown_key := False, time_update := '''', updated_deci := 0,
       number_key := True, alarm_key := 14,
       set_countdown_button := (''Set'', Cmd_set_countdown),
       countdown_time_label := ''00:00:00'', countdown_mini_time_label := ''.0''\<rparr>"

text \<open>\<^verbatim>\<open>pause_countdown\<close>.\<close>

definition pause_countdown :: "countdown \<Rightarrow> countdown" where
  "pause_countdown s =
     (sounds 2 s)\<lparr>countdown_key := False,
       set_countdown_button := (''Cont.'', Cmd_start_countdown)\<rparr>"

text \<open>
  \<^verbatim>\<open>set_countdown\<close>. The three \<^verbatim>\<open>int()\<close> calls can raise; by then the buffer is emptied
  and the number buttons are switched off. Both branches of the length test on the new
  \<^verbatim>\<open>updated_time\<close> show it and bind Start (they differ in the font only).
\<close>

definition set_countdown :: "countdown \<Rightarrow> countdown outcome" where
  "set_countdown s =
     (if time_update s = '''' then Returned s
      else
        (let s1 = (sounds 2 s)\<lparr>time_update := '''', number_key := False\<rparr> in
         case (py_int (slice 0 2 (updated_time s1)), py_int (slice 3 5 (updated_time s1)),
               py_int (slice 6 8 (updated_time s1))) of
           (Some hours, Some minutes, Some seconds) \<Rightarrow>
             if seconds > 59 \<or> minutes > 59 then
               (let s2 = s1\<lparr>updated_time :=
                            zfill 2 (py_str (hours + minutes div 60)) @ '':'' @
                            zfill 2 (py_str (minutes mod 60 + seconds div 60)) @ '':'' @
                            zfill 2 (py_str (seconds mod 60))\<rparr>
                in Returned (s2\<lparr>countdown_time_label := updated_time s2,
                                 set_countdown_button := (''Start'', Cmd_start_countdown)\<rparr>))
             else Returned (s1\<lparr>set_countdown_button := (''Start'', Cmd_start_countdown)\<rparr>)
         | _ \<Rightarrow> Raised s1))"

text \<open>
  What \<^verbatim>\<open>update()\<close> can run inside \<^verbatim>\<open>start_countdown\<close>: the callbacks of the buttons
  pressed meanwhile. A number button and Clear are always bound; the Set button pauses
  only while it is bound to \<^verbatim>\<open>pause_countdown\<close> (during the alarm it is bound to
  \<^verbatim>\<open>lambda: None\<close>). A press of the Set button while it is bound to \<^verbatim>\<open>set_countdown\<close> or
  \<^verbatim>\<open>start_countdown\<close> inside \<^verbatim>\<open>update()\<close> would nest a second call in the first; such
  presses are not in the model.
\<close>

datatype countdown_event = Press_number int | Press_clear | Press_pause

fun countdown_press :: "countdown_event \<Rightarrow> countdown \<Rightarrow> countdown" where
  "countdown_press (Press_number num) s = number_buttons num s"
| "countdown_press Press_clear s = clear_countdown s"
| "countdown_press Press_pause s =
     (if snd (set_countdown_button s) = Cmd_pause_countdown then pause_countdown s else s)"

text \<open>
  The decrement at the end of the loop body of \<^verbatim>\<open>start_countdown\<close>, on the loop's
  local variables; \<open>shown\<close> is \<^verbatim>\<open>self.updated_time\<close>. \<open>None\<close> is the branch that
  rings the alarm and breaks.
\<close>

definition countdown_step ::
    "string \<Rightarrow> int \<times> int \<times> int \<times> int \<Rightarrow> (int \<times> int \<times> int \<times> int) option" where
  "countdown_step shown l =
     (case l of (hours, minutes, seconds, deci_sec_2) \<Rightarrow>
        if deci_sec_2 - 1 = - 1 then
          (if shown = ''00:00:00'' then None
           else if seconds - 1 = - 1 then
             (if minutes - 1 = - 1 then Some (hours - 1, 59, 59, 9)
              else Some (hours, minutes - 1, 59, 9))
           else Some (hours, minutes, seconds - 1, 9))
        else Some (hours, minutes, seconds, deci_sec_2 - 1))"

text \<open>
  The alarm loop, \<^verbatim>\<open>while self.alarm_key < 14\<close>. Each pulse beeps, flashes red, calls
  \<^verbatim>\<open>update()\<close>, takes the red away, counts, and calls \<^verbatim>\<open>update()\<close> again. Each
  \<^verbatim>\<open>update()\<close> takes the next entry of the schedule.
\<close>

fun alarm_loop :: "countdown_event list list \<Rightarrow> countdown \<Rightarrow> countdown outcome" where
  "alarm_loop sched s =
     (if alarm_key s < 14 then
        (let s1 = (sounds 3 s)\<lparr>flash_red := True\<rparr> in
         case sched of
           [] \<Rightarrow> Waiting s1
         | presses1 # sched1 \<Rightarrow>
             (let s2 = (fold countdown_press presses1 s1)\<lparr>flash_red := False\<rparr>;
                  s3 = s2\<lparr>alarm_key := alarm_key s2 + 1\<rparr> in
              case sched1 of
                [] \<Rightarrow> Waiting s3
              | presses2 # sched2 \<Rightarrow> alarm_loop sched2 (fold countdown_press presses2 s3)))
      else Returned s)"

declare alarm_loop.simps [simp del]

text \<open>
  The loop of \<^verbatim>\<open>start_countdown\<close>, \<^verbatim>\<open>while self.countdown_key is True\<close>, with the alarm
  branch and what follows the alarm loop.
\<close>

fun countdown_loop ::
    "countdown_event list list \<Rightarrow> int \<times> int \<times> int \<times> int \<Rightarrow> countdown \<Rightarrow> countdown outcome" where
  "countdown_loop sched (hours, minutes, seconds, deci_sec_2) s =
     (if countdown_key s then
        (let s1 = s\<lparr>updated_time := hms hours minutes seconds, updated_deci := deci_sec_2\<rparr>;
             s2 = s1\<lparr>countdown_mini_time_label := ''.'' @ py_str (updated_deci s1),
                     countdown_time_label := updated_time s1\<rparr> in
         case sched of
           [] \<Rightarrow> Waiting s2
         | presses # sched1 \<Rightarrow>
             (let s3 = fold countdown_press presses s2 in
              case countdown_step (updated_time s3) (hours, minutes, seconds, deci_sec_2) of
                None \<Rightarrow>
                  (case alarm_loop sched1
                          (s3\<lparr>alarm_key := 0, set_countdown_button := ('''', Cmd_nothing)\<rparr>) of
                     Returned s4 \<Rightarrow>
                       Returned (s4\<lparr>number_key := True,
                                     set_countdown_button := (''Set'', Cmd_set_countdown)\<rparr>)
                   | Waiting s4 \<Rightarrow> Waiting s4
                   | Raised s4 \<Rightarrow> Raised s4)
              | Some l \<Rightarrow> countdown_loop sched1 l s3))
      else Returned s)"

declare countdown_loop.simps [simp del]

text \<open>\<^verbatim>\<open>start_countdown\<close>: the sound, the key, the button, the parse of the shown time.\<close>

definition start_countdown :: "countdown_event list list \<Rightarrow> countdown \<Rightarrow> countdown outcome" where
  "start_countdown sched s =
     (let s1 = (sounds 2 s)\<lparr>countdown_key := True,
                 set_countdown_button := (''Pause'', Cmd_pause_countdown)\<rparr>;
          t = updated_time s1 in
      case (if length t < 9
            then (py_int (slice 0 2 t), py_int (slice 3 5 t), py_int (slice 6 8 t))
            else (py_int (slice 0 3 t), py_int (slice 4 6 t), py_int (slice 7 9 t))) of
        (Some hours, Some minutes, Some seconds) \<Rightarrow>
          countdown_loop sched (hours, minutes, seconds, updated_deci s1) s1
      | _ \<Rightarrow> Raised s1)"

section \<open>The stopwatch frame\<close>

datatype stopwatch_command = Cmd_start_stopwatch | Cmd_pause_stopwatch

text \<open>
  The attributes of \<^verbatim>\<open>Stopwatch\<close>, and of its widgets the texts of the two labels, the
  text and command of the Start button, the text of the Lap button, and the strings
  inserted into the lap display, in order.
\<close>

record stopwatch = window +
  stopwatch_key :: bool
  HMS_key :: bool
  recorded_laps :: int
  new_time :: string
  new_deci :: string
  old_time :: string
  old_deci :: string
  stopwatch_time_label :: string
  stopwatch_mini_time_label :: string
  start_stopwatch_button :: "string \<times> stopwatch_command"
  lap_button :: string
  lap_display :: "string list"

definition stopwatch_init :: stopwatch where
  "stopwatch_init =
     \<lparr>sound_log = [], stopwatch_key = True, HMS_key = True, recorded_laps = 0,
      new_time = '''', new_deci = '''', old_time = '''', old_deci = '''',
      stopwatch_time_label = ''00:00:00'', stopwatch_mini_time_label = ''.0'',
      start_stopwatch_button = (''Start'', Cmd_start_stopwatch), lap_button = '''',
      lap_display = []\<rparr>"

text \<open>\<^verbatim>\<open>clear_stopwatch\<close> and \<^verbatim>\<open>pause_stopwatch\<close>.\<close>

definition clear_stopwatch :: "stopwatch \<Rightarrow> stopwatch" where
  "clear_stopwatch s =
     (sounds 2 s)\<lparr>stopwatch_key := False, HMS_key := True, recorded_laps := 0,
       lap_button := '' '', lap_display := [],
       stopwatch_time_label := ''00:00:00'', stopwatch_mini_time_label := ''.0'',
       start_stopwatch_button := (''Start'', Cmd_start_stopwatch)\<rparr>"

definition pause_stopwatch :: "stopwatch \<Rightarrow> stopwatch" where
  "pause_stopwatch s =
     (sounds 2 s)\<lparr>stopwatch_key := False, HMS_key := False, lap_button := '' '',
       start_stopwatch_button := (''Cont.'', Cmd_start_stopwatch)\<rparr>"

text \<open>
  The four \<^verbatim>\<open>int()\<close> calls that read a time back from the two strings it is kept in:
  \<^verbatim>\<open>int(t[0:2])\<close>, \<^verbatim>\<open>int(t[3:5])\<close>, \<^verbatim>\<open>int(t[6:8])\<close> and \<^verbatim>\<open>int(d)\<close>. Any of them can raise.
\<close>

definition read_time :: "string \<Rightarrow> string \<Rightarrow> (int \<times> int \<times> int \<times> int) option" where
  "read_time t d =
     (case py_int (slice 0 2 t) of None \<Rightarrow> None | Some hours \<Rightarrow>
      case py_int (slice 3 5 t) of None \<Rightarrow> None | Some minutes \<Rightarrow>
      case py_int (slice 6 8 t) of None \<Rightarrow> None | Some seconds \<Rightarrow>
      case py_int d of None \<Rightarrow> None | Some deci_sec \<Rightarrow>
        Some (hours, minutes, seconds, deci_sec))"

text \<open>
  The difference of \<^verbatim>\<open>record_lap\<close> between the new lap and the previous one: the four
  subtractions, then the three borrows, in the order of the source.
\<close>

definition lap_difference ::
    "int \<times> int \<times> int \<times> int \<Rightarrow> int \<times> int \<times> int \<times> int \<Rightarrow> int \<times> int \<times> int \<times> int" where
  "lap_difference new old =
     (case (new, old) of ((nh, nm, ns, nd), (oh, om, os, od)) \<Rightarrow>
        (let diff_d = nd - od; diff_s = ns - os; diff_m = nm - om; diff_h = nh - oh;
             (diff_d, diff_s) = (if diff_d < 0 then (10 - - diff_d, diff_s - 1) else (diff_d, diff_s));
             (diff_s, diff_m) = (if diff_s < 0 then (60 - - diff_s, diff_m - 1) else (diff_s, diff_m));
             (diff_m, diff_h) = (if diff_m < 0 then (60 - - diff_m, diff_h - 1) else (diff_m, diff_h))
         in (diff_h, diff_m, diff_s, diff_d)))"

text \<open>The string \<^verbatim>\<open>record_lap\<close> inserts: the lap's number, its time and the difference.\<close>

definition lap_row :: "int \<Rightarrow> string \<Rightarrow> string \<Rightarrow> string" where
  "lap_row n split difference =
     py_str n @ ''|     '' @ split @ ''     |     '' @ difference @ [CHR 0x0A]"

text \<open>\<^verbatim>\<open>record_lap\<close>.\<close>

definition record_lap :: "stopwatch \<Rightarrow> stopwatch outcome" where
  "record_lap s =
     (if stopwatch_key s then
        (let s1 = (sounds 2 s)\<lparr>recorded_laps := recorded_laps s + 1\<rparr> in
         if recorded_laps s1 = 1 then
           (let difference = new_time s1 @ ''.'' @ new_deci s1 in
            Returned (s1\<lparr>lap_display :=
                            lap_display s1 @ [lap_row (recorded_laps s1) difference difference],
                          old_time := new_time s1, old_deci := new_deci s1\<rparr>))
         else
           (case (read_time (new_time s1) (new_deci s1), read_time (old_time s1) (old_deci s1)) of
              (Some new, Some old) \<Rightarrow>
                (case lap_difference new old of (diff_h, diff_m, diff_s, diff_d) \<Rightarrow>
                   (let difference = zfill 2 (py_str diff_h) @ '':'' @ zfill 2 (py_str diff_m) @
                                     '':'' @ zfill 2 (py_str diff_s) @ ''.'' @ py_str diff_d in
                    Returned (s1\<lparr>lap_display :=
                                    lap_display s1 @
                                    [lap_row (recorded_laps s1)
                                       (new_time s1 @ ''.'' @ new_deci s1) difference],
                                  old_time := new_time s1, old_deci := new_deci s1\<rparr>)))
            | _ \<Rightarrow> Raised s1))
      else Returned s)"

text \<open>
  What \<^verbatim>\<open>update()\<close> can run inside \<^verbatim>\<open>start_stopwatch\<close>: Lap, Clear, and the Start
  button while it is bound to \<^verbatim>\<open>pause_stopwatch\<close>. An exception in a callback ends the
  callback only; the loop goes on with the state the callback left. A press of the
  Start button while it is bound to \<^verbatim>\<open>start_stopwatch\<close> would nest a second call; such
  presses are not in the model.
\<close>

datatype stopwatch_event = Press_lap | Press_clear_stopwatch | Press_pause_stopwatch

fun stopwatch_press :: "stopwatch_event \<Rightarrow> stopwatch \<Rightarrow> stopwatch" where
  "stopwatch_press Press_lap s = state_of (record_lap s)"
| "stopwatch_press Press_clear_stopwatch s = clear_stopwatch s"
| "stopwatch_press Press_pause_stopwatch s =
     (if snd (start_stopwatch_button s) = Cmd_pause_stopwatch then pause_stopwatch s else s)"

text \<open>The increment at the end of the loop body of \<^verbatim>\<open>start_stopwatch\<close>.\<close>

definition stopwatch_step :: "int \<times> int \<times> int \<times> int \<Rightarrow> int \<times> int \<times> int \<times> int" where
  "stopwatch_step l =
     (case l of (hours, minutes, seconds, deci_sec) \<Rightarrow>
        if deci_sec + 1 = 10 then
          (if seconds + 1 = 60 then
             (if minutes + 1 = 60 then (hours + 1, 0, 0, 0) else (hours, minutes + 1, 0, 0))
           else (hours, minutes, seconds + 1, 0))
        else (hours, minutes, seconds, deci_sec + 1))"

text \<open>
  The loop of \<^verbatim>\<open>start_stopwatch\<close>, \<^verbatim>\<open>while self.stopwatch_key is True\<close>. The overflow
  branch breaks before \<^verbatim>\<open>update()\<close> is reached.
\<close>

fun stopwatch_loop ::
    "stopwatch_event list list \<Rightarrow> int \<times> int \<times> int \<times> int \<Rightarrow> stopwatch \<Rightarrow> stopwatch outcome" where
  "stopwatch_loop sched (hours, minutes, seconds, deci_sec) s =
     (if stopwatch_key s then
        (let s1 = s\<lparr>new_time := hms hours minutes seconds, new_deci := py_str deci_sec\<rparr> in
         if new_time s1 = ''99:59:59'' then
           Returned (s1\<lparr>stopwatch_time_label := ''Overflow'',
                         stopwatch_mini_time_label := '''', lap_button := ''''\<rparr>)
         else
           (let s2 = s1\<lparr>stopwatch_time_label := new_time s1,
                         stopwatch_mini_time_label := ''.'' @ new_deci s1\<rparr> in
            case sched of
              [] \<Rightarrow> Waiting s2
            | presses # sched1 \<Rightarrow>
                stopwatch_loop sched1 (stopwatch_step (hours, minutes, seconds, deci_sec))
                  (fold stopwatch_press presses s2)))
      else Returned s)"

declare stopwatch_loop.simps [simp del]

text \<open>\<^verbatim>\<open>start_stopwatch\<close>.\<close>

definition start_stopwatch :: "stopwatch_event list list \<Rightarrow> stopwatch \<Rightarrow> stopwatch outcome" where
  "start_stopwatch sched s =
     (let s1 = (sounds 2 s)\<lparr>stopwatch_key := True, lap_button := ''Lap'',
                 start_stopwatch_button := (''Pause'', Cmd_pause_stopwatch)\<rparr> in
      if HMS_key s1 then stopwatch_loop sched (0, 0, 0, 0) s1
      else (case read_time (new_time s1) (new_deci s1) of
              None \<Rightarrow> Raised s1
            | Some l \<Rightarrow> stopwatch_loop sched l s1))"

section \<open>Notions the properties are stated with\<close>

text \<open>
  What the specification says of \<^verbatim>\<open>parseDigits\<close>: the digits are right-justified into
  HH:MM:SS, seconds first, then minutes, then hours, with zeros in the places left over.
  Written here from those words, to be compared with \<^const>\<open>format_number_inputs\<close>.
\<close>

definition right_justified :: "string \<Rightarrow> string" where
  "right_justified t =
     (let padded = replicate (6 - length t) CHR ''0'' @ t
      in take 2 padded @ '':'' @ take 2 (drop 2 padded) @ '':'' @ drop 4 padded)"

text \<open>The characters \<^verbatim>\<open>int()\<close> reads as digits, and strings without a colon.\<close>

definition is_digit :: "char \<Rightarrow> bool" where
  "is_digit c = (digit_value c \<noteq> None)"

definition no_colon :: "string \<Rightarrow> bool" where
  "no_colon s = (CHR '':'' \<notin> set s)"

section \<open>Facts about the strings\<close>

lemma digit_value_digit_char: "d < 10 \<Longrightarrow> digit_value (digit_char d) = Some d"
  by (simp add: digit_value_def digit_char_def)

lemma is_digit_digit_char: "d < 10 \<Longrightarrow> is_digit (digit_char d)"
  by (simp add: is_digit_def digit_value_digit_char)

lemma is_digit_simps:
  "\<not> is_digit CHR '':''" "\<not> is_digit CHR ''-''" "\<not> is_digit CHR ''+''" "\<not> is_digit CHR ''.''"
  "is_digit CHR ''0''"
  by (simp_all add: is_digit_def digit_value_def)

lemma digit_value_zero: "digit_value CHR ''0'' = Some 0"
  by (simp add: digit_value_def)

lemma digit_char_not_colon: "d < 10 \<Longrightarrow> digit_char d \<noteq> CHR '':''"
  using is_digit_digit_char [of d] by (auto simp: is_digit_simps)

lemma digits_value_append:
  "digits_value acc (xs @ ys) =
     (case digits_value acc xs of None \<Rightarrow> None | Some v \<Rightarrow> digits_value v ys)"
  by (induction xs arbitrary: acc) (auto split: option.splits)

lemma digits_value_str_nat: "digits_value 0 (str_nat n) = Some n"
proof (induction n rule: str_nat.induct)
  case (1 n)
  show ?case
  proof (cases "n < 10")
    case True
    then show ?thesis
      by (subst str_nat.simps) (simp add: digit_value_digit_char)
  next
    case False
    then have "digits_value 0 (str_nat (n div 10)) = Some (n div 10)"
      using 1 by simp
    with False show ?thesis
      by (subst str_nat.simps) (simp add: digits_value_append digit_value_digit_char)
  qed
qed

lemma str_nat_digits: "\<forall>c \<in> set (str_nat n). is_digit c"
proof (induction n rule: str_nat.induct)
  case (1 n)
  then show ?case
    by (subst str_nat.simps) (auto simp: is_digit_digit_char)
qed

lemma str_nat_not_Nil: "str_nat n \<noteq> []"
  by (subst str_nat.simps) simp

lemma str_nat_small: "n < 10 \<Longrightarrow> str_nat n = [digit_char n]"
  by (subst str_nat.simps) simp

lemma str_nat_two:
  "10 \<le> n \<Longrightarrow> n < 100 \<Longrightarrow> str_nat n = [digit_char (n div 10), digit_char (n mod 10)]"
  by (subst str_nat.simps) (simp add: str_nat_small)

lemma str_nat_three:
  assumes "100 \<le> n" "n < 1000"
  shows "str_nat n = [digit_char (n div 100), digit_char (n div 10 mod 10), digit_char (n mod 10)]"
proof -
  have d: "n div 10 div 10 = n div 100" by (simp add: div_mult2_eq [symmetric])
  from assms show ?thesis
    by (subst str_nat.simps) (simp add: str_nat_two d)
qed

lemma length_str_nat_ge2: "10 \<le> n \<Longrightarrow> 2 \<le> length (str_nat n)"
  using str_nat_not_Nil [of "n div 10"]
  by (subst str_nat.simps) (cases "str_nat (n div 10)"; simp)

lemma py_int_digits:
  "s \<noteq> [] \<Longrightarrow> \<forall>c \<in> set s. is_digit c \<Longrightarrow> py_int s = map_option int (digits_value 0 s)"
  by (cases s) (auto simp: py_int_def is_digit_simps)

lemma py_int_py_str: "py_int (py_str i) = Some i"
proof (cases "i < 0")
  case True
  then show ?thesis
    by (simp add: py_str_def py_int_def str_nat_not_Nil digits_value_str_nat)
next
  case False
  then show ?thesis
    using py_int_digits [OF str_nat_not_Nil str_nat_digits, of "nat i"]
    by (simp add: py_str_def digits_value_str_nat)
qed

lemma zfill_py_str_small:
  assumes "0 \<le> i" "i < 10"
  shows "zfill 2 (py_str i) = [CHR ''0'', digit_char (nat i)]"
proof -
  from assms have "nat i < 10" by simp
  then have "is_digit (digit_char (nat i))" by (rule is_digit_digit_char)
  with assms show ?thesis
    by (auto simp: zfill_def py_str_def str_nat_small is_digit_simps)
qed

lemma zfill_py_str_big: "10 \<le> i \<Longrightarrow> zfill 2 (py_str i) = py_str i"
  using length_str_nat_ge2 [of "nat i"] by (simp add: zfill_def py_str_def)

lemma zfill_py_str_neg: "i < 0 \<Longrightarrow> zfill 2 (py_str i) = py_str i"
  using str_nat_not_Nil [of "nat (- i)"]
  by (cases "str_nat (nat (- i))") (simp_all add: zfill_def py_str_def)

lemma py_int_zfill: "py_int (zfill 2 (py_str i)) = Some i"
proof -
  consider "i < 0" | "0 \<le> i" "i < 10" | "10 \<le> i" by linarith
  then show ?thesis
  proof cases
    case 1 then show ?thesis by (simp add: zfill_py_str_neg py_int_py_str)
  next
    case 2
    then have "nat i < 10" by simp
    with 2 show ?thesis
      using is_digit_digit_char [of "nat i"]
      by (auto simp: zfill_py_str_small py_int_def digit_value_zero digit_value_digit_char
            is_digit_simps)
  next
    case 3 then show ?thesis by (simp add: zfill_py_str_big py_int_py_str)
  qed
qed

lemma no_colon_py_str: "no_colon (py_str i)"
  using str_nat_digits [of "nat i"] str_nat_digits [of "nat (- i)"]
  by (auto simp: no_colon_def py_str_def is_digit_simps)

lemma no_colon_zfill: "no_colon (zfill 2 (py_str i))"
proof -
  consider "i < 0" | "0 \<le> i" "i < 10" | "10 \<le> i" by linarith
  then show ?thesis
  proof cases
    case 1 then show ?thesis by (simp add: zfill_py_str_neg no_colon_py_str)
  next
    case 2
    then have "digit_char (nat i) \<noteq> CHR '':''" by (simp add: digit_char_not_colon)
    with 2 show ?thesis
      by (auto simp: zfill_py_str_small no_colon_def)
  next
    case 3 then show ?thesis by (simp add: zfill_py_str_big no_colon_py_str)
  qed
qed

lemma split_colon:
  "no_colon a \<Longrightarrow> no_colon b \<Longrightarrow> a @ CHR '':'' # r = b @ CHR '':'' # r' \<Longrightarrow> a = b \<and> r = r'"
proof (induction a arbitrary: b)
  case Nil
  then show ?case by (cases b) (auto simp: no_colon_def)
next
  case (Cons x a)
  then show ?case by (cases b) (auto simp: no_colon_def)
qed

lemma zfill_inj:
  assumes "zfill 2 (py_str i) = zfill 2 (py_str j)"
  shows "i = j"
proof -
  have "py_int (zfill 2 (py_str i)) = py_int (zfill 2 (py_str j))"
    using assms by (rule arg_cong)
  then show ?thesis by (simp only: py_int_zfill option.inject)
qed

lemma hms_inj: "hms h m s = hms h' m' s' \<Longrightarrow> h = h' \<and> m = m' \<and> s = s'"
proof -
  assume eq: "hms h m s = hms h' m' s'"
  from eq have 1: "zfill 2 (py_str h) = zfill 2 (py_str h') \<and>
      zfill 2 (py_str m) @ CHR '':'' # zfill 2 (py_str s) =
      zfill 2 (py_str m') @ CHR '':'' # zfill 2 (py_str s')"
    using split_colon [OF no_colon_zfill no_colon_zfill] by (simp add: hms_def)
  then have 2: "zfill 2 (py_str m) = zfill 2 (py_str m') \<and>
      zfill 2 (py_str s) = zfill 2 (py_str s')"
    using split_colon [OF no_colon_zfill no_colon_zfill] by blast
  from 1 2 show ?thesis by (blast dest: zfill_inj)
qed

lemma hms_zero: "hms 0 0 0 = ''00:00:00''"
  by code_simp

lemma hms_ceiling: "hms 99 59 59 = ''99:59:59''"
  by code_simp

lemma hms_eq_zero: "hms h m s = ''00:00:00'' \<longleftrightarrow> h = 0 \<and> m = 0 \<and> s = 0"
proof
  assume "hms h m s = ''00:00:00''"
  then have "hms h m s = hms 0 0 0" by (simp only: hms_zero)
  then show "h = 0 \<and> m = 0 \<and> s = 0" by (rule hms_inj)
next
  assume "h = 0 \<and> m = 0 \<and> s = 0"
  then show "hms h m s = ''00:00:00''" using hms_zero by simp
qed

lemma hms_eq_ceiling: "hms h m s = ''99:59:59'' \<longleftrightarrow> h = 99 \<and> m = 59 \<and> s = 59"
proof
  assume "hms h m s = ''99:59:59''"
  then have "hms h m s = hms 99 59 59" by (simp only: hms_ceiling)
  then show "h = 99 \<and> m = 59 \<and> s = 59" by (rule hms_inj)
next
  assume "h = 99 \<and> m = 59 \<and> s = 59"
  then show "hms h m s = ''99:59:59''" using hms_ceiling by simp
qed

section \<open>Entering digits\<close>

lemma length_cases_1_6:
  assumes "1 \<le> length t" "length t \<le> 6"
  obtains a where "t = [a]"
  | a b where "t = [a, b]"
  | a b c where "t = [a, b, c]"
  | a b c d where "t = [a, b, c, d]"
  | a b c d e where "t = [a, b, c, d, e]"
  | a b c d e f where "t = [a, b, c, d, e, f]"
proof -
  from assms consider "length t = 1" | "length t = 2" | "length t = 3" | "length t = 4"
    | "length t = 5" | "length t = 6" by linarith
  then show ?thesis
  proof cases
    case 1 then show ?thesis using that(1) by (auto simp: length_Suc_conv)
  next
    case 2 then show ?thesis using that(2) by (auto simp: length_Suc_conv numeral_2_eq_2)
  next
    case 3 then show ?thesis using that(3) by (auto simp: length_Suc_conv numeral_3_eq_3)
  next
    case 4 then show ?thesis using that(4) by (auto simp: length_Suc_conv eval_nat_numeral)
  next
    case 5 then show ?thesis using that(5) by (auto simp: length_Suc_conv eval_nat_numeral)
  next
    case 6 then show ?thesis using that(6) by (auto simp: length_Suc_conv eval_nat_numeral)
  qed
qed

lemma format_number_inputs_updated_time:
  assumes "1 \<le> length t" "length t \<le> 6"
  shows "format_number_inputs (s\<lparr>time_update := t\<rparr>) =
         s\<lparr>time_update := t, updated_time := right_justified t,
           countdown_time_label := right_justified t\<rparr>"
  using assms
  by (cases t rule: length_cases_1_6)
     (simp_all add: format_number_inputs_def right_justified_def slice_def Let_def
        eval_nat_numeral)

text \<open>
  Claim C6. For a buffer of 1 to 6 characters, \<^verbatim>\<open>format_number_inputs\<close> leaves in
  \<^verbatim>\<open>updated_time\<close>, and shows on the label, the buffer right-justified into HH:MM:SS:
  the last two characters are the seconds, the two before them the minutes, the first
  two the hours, and the places left over are zeros. So \<^verbatim>\<open>7\<close> gives \<^verbatim>\<open>00:00:07\<close>,
  \<^verbatim>\<open>1234\<close> gives \<^verbatim>\<open>00:12:34\<close> and \<^verbatim>\<open>123456\<close> gives \<^verbatim>\<open>12:34:56\<close>.
\<close>

theorem format_number_inputs_right_justifies:
  assumes "1 \<le> length t" "length t \<le> 6"
  shows "updated_time (format_number_inputs (s\<lparr>time_update := t\<rparr>)) = right_justified t \<and>
         countdown_time_label (format_number_inputs (s\<lparr>time_update := t\<rparr>)) =
           right_justified t"
  using assms by (simp add: format_number_inputs_updated_time)

theorem format_number_inputs_right_justifies_witness:
  "updated_time (format_number_inputs (countdown_init\<lparr>time_update := ''7''\<rparr>)) =
     ''00:00:07'' \<and>
   updated_time (format_number_inputs (countdown_init\<lparr>time_update := ''1234''\<rparr>)) =
     ''00:12:34'' \<and>
   countdown_time_label (format_number_inputs (countdown_init\<lparr>time_update := ''123456''\<rparr>)) =
     ''12:34:56''"
  using format_number_inputs_right_justifies [of "''7''" countdown_init]
    format_number_inputs_right_justifies [of "''1234''" countdown_init]
    format_number_inputs_right_justifies [of "''123456''" countdown_init]
  by (simp add: right_justified_def eval_nat_numeral)

text \<open>
  Claim C1. After \<^verbatim>\<open>set_countdown\<close> the minutes and the seconds of the time it fixes
  are to be at most 59. The code adds the carry of the seconds to \<^verbatim>\<open>minutes % 60\<close> and
  carries nothing further: the digits 5, 9, 6, 0 are shown as \<^verbatim>\<open>00:59:60\<close> and fixed as
  \<^verbatim>\<open>00:60:00\<close>, with 60 minutes.
\<close>

theorem set_countdown_minutes_sixty:
  "set_countdown (fold number_buttons [5, 9, 6, 0] countdown_init) =
     Returned (countdown_init\<lparr>sound_log := [2, 2, 2, 2, 2], number_key := False,
       updated_time := ''00:60:00'', countdown_time_label := ''00:60:00'',
       set_countdown_button := (''Start'', Cmd_start_countdown)\<rparr>)"
  by code_simp

end
